theory Spec2Isabelle
  imports Main "HOL-Library.Word"
begin

section \<open>The enterprise operations of the workspace manager\<close>

text \<open>
  This theory embeds \<^verbatim>\<open>components/ws-manager/pkg/manager/manager_ee.go\<close>: the five
  operations \<^verbatim>\<open>TakeSnapshot\<close>, \<^verbatim>\<open>GetVolumeSnapshot\<close>, \<^verbatim>\<open>ControlAdmission\<close>,
  \<^verbatim>\<open>SetTimeout\<close> and \<^verbatim>\<open>BackupWorkspace\<close> of \<^verbatim>\<open>Manager\<close>.

  The file calls helpers that live elsewhere (the pod lookup, the status derivation, the mark
  operation, the volume-snapshot helpers, the daemon connection, library functions). They are
  not given a behaviour here: each is a field of the record \<open>Manager\<close>, so every theorem
  holds for any behaviour of the helpers. Every helper that takes the request context (and so
  talks to the cluster or to the daemon) is recorded, in call order, in the list of calls an
  operation returns beside its result. That list is how "performs no mutation" and "the daemon
  is never contacted" are stated.
\<close>

subsection \<open>Errors\<close>

text \<open>The gRPC codes of \<^verbatim>\<open>google.golang.org/grpc/codes\<close>.\<close>

datatype Code =
    OK | Canceled | Unknown | InvalidArgument | DeadlineExceeded | NotFound | AlreadyExists
  | PermissionDenied | ResourceExhausted | FailedPrecondition | Aborted | OutOfRange
  | Unimplemented | Internal | Unavailable | DataLoss | Unauthenticated

text \<open>
  A Go error value. The constructors are named after the functions that build the value:
  \<^verbatim>\<open>status.Errorf(code, format, args...)\<close> builds a gRPC status error,
  \<^verbatim>\<open>xerrors.Errorf(format, args...)\<close> a plain error that wraps its \<^verbatim>\<open>%w\<close> argument,
  \<^verbatim>\<open>errors.New(text)\<close> a plain error (what \<^verbatim>\<open>time.ParseDuration\<close> returns), and
  \<open>k8s_StatusError\<close> is the API machinery's \<^verbatim>\<open>StatusError\<close> with its HTTP code and message.
  Messages are kept as the format string with its arguments, unrendered.
\<close>

datatype go_error =
    status_Errorf Code string "fmt_arg list"
  | xerrors_Errorf string "fmt_arg list"
  | errors_New string
  | k8s_StatusError int string
and fmt_arg = S string | E go_error

text \<open>
  \<^verbatim>\<open>status.Code(err)\<close> for a non-nil error: the code of a gRPC status error, and
  \<^verbatim>\<open>codes.Unknown\<close> for every error that is not one.
\<close>

fun status_Code :: "go_error \<Rightarrow> Code" where
  "status_Code (status_Errorf c f as) = c"
| "status_Code (xerrors_Errorf f as) = Unknown"
| "status_Code (errors_New s) = Unknown"
| "status_Code (k8s_StatusError n s) = Unknown"

subsection \<open>Data\<close>

text \<open>
  Modelled from the spec: the enumeration \<^verbatim>\<open>api.WorkspacePhase\<close> is generated code that is
  not part of the sources at hand. The spec names "(at least)" the phases CREATING, RUNNING,
  STOPPING and STOPPED; every further value of the enumeration is \<open>OtherPhase n\<close>.
\<close>

datatype WorkspacePhase = CREATING | RUNNING | STOPPING | STOPPED | OtherPhase nat

record WorkspaceStatus =
  Phase :: WorkspacePhase

record Pod =
  Pod_Name :: string
  Pod_Labels :: "string \<rightharpoonup> string"

record workspaceObjects =
  wso_Pod :: Pod

record PVCConfiguration =
  SnapshotClass :: string

record WorkspaceClass =
  PVC :: PVCConfiguration

text \<open>The mark that \<^verbatim>\<open>addMark(name, value)\<close> builds for \<^verbatim>\<open>markWorkspace\<close>.\<close>

datatype annotation = addMark string string

record TakeSnapshotRequest =
  TakeSnapshotRequest_Id :: string
  TakeSnapshotRequest_ReturnImmediately :: bool

record TakeSnapshotResponse =
  TakeSnapshotResponse_Url :: string

record GetVolumeSnapshotRequest =
  GetVolumeSnapshotRequest_Id :: string

record GetVolumeSnapshotResponse =
  GetVolumeSnapshotResponse_Id :: string
  GetVolumeSnapshotResponse_Ready :: bool

text \<open>\<^verbatim>\<open>api.AdmissionLevel\<close> is an \<^verbatim>\<open>int32\<close>; a request can carry any value of it.\<close>

record ControlAdmissionRequest =
  ControlAdmissionRequest_Id :: string
  ControlAdmissionRequest_Level :: "32 word"

record SetTimeoutRequest =
  SetTimeoutRequest_Id :: string
  SetTimeoutRequest_Duration :: string

record BackupWorkspaceRequest =
  BackupWorkspaceRequest_Id :: string

record BackupWorkspaceResponse =
  BackupWorkspaceResponse_Url :: string

text \<open>The requests and responses of the workspace daemon (\<^verbatim>\<open>wsdaemon\<close>).\<close>

record wsdaemon_TakeSnapshotRequest =
  wsdaemon_TakeSnapshotRequest_Id :: string
  wsdaemon_TakeSnapshotRequest_ReturnImmediately :: bool

record wsdaemon_TakeSnapshotResponse =
  wsdaemon_TakeSnapshotResponse_Url :: string

record wsdaemon_BackupWorkspaceRequest =
  wsdaemon_BackupWorkspaceRequest_Id :: string

record wsdaemon_BackupWorkspaceResponse =
  wsdaemon_BackupWorkspaceResponse_Url :: string

text \<open>
  The client that \<^verbatim>\<open>connectToWorkspaceDaemon\<close> returns (\<^verbatim>\<open>sync\<close> in the source), with the
  two RPCs the file calls on it.
\<close>

record WorkspaceContentServiceClient =
  sync_TakeSnapshot :: "wsdaemon_TakeSnapshotRequest \<Rightarrow> go_error + wsdaemon_TakeSnapshotResponse"
  sync_BackupWorkspace :: "wsdaemon_BackupWorkspaceRequest \<Rightarrow> go_error + wsdaemon_BackupWorkspaceResponse"

subsection \<open>The manager and what it calls\<close>

text \<open>
  Everything the five operations use and do not define. A Go result \<^verbatim>\<open>(value, err)\<close> is a
  sum with \<open>Inl\<close> the error; a lone \<^verbatim>\<open>err\<close> is an option; the two helpers that return a
  readiness flag beside the error keep both, since the source reads both. The source calls
  \<^verbatim>\<open>isKubernetesObjNotFoundError\<close> before it tests \<^verbatim>\<open>err != nil\<close>; the predicate is false
  on \<^verbatim>\<open>nil\<close>, so the model applies it to errors only. A pod that was found, and the pod
  inside the workspace objects, are not \<^verbatim>\<open>nil\<close>.
  \<^item> methods of \<^verbatim>\<open>Manager\<close>: \<open>findWorkspacePod\<close>, \<open>getWorkspaceObjects\<close>,
    \<open>getWorkspaceStatus\<close>, \<open>createWorkspaceSnapshotFromPVC\<close>,
    \<open>waitForWorkspaceVolumeSnapshotReady\<close>, \<open>checkWorkspaceVolumeSnapshotIsReady\<close>,
    \<open>connectToWorkspaceDaemon\<close>, \<open>markWorkspace\<close>, and the configuration table
    \<^verbatim>\<open>m.Config.WorkspaceClasses\<close> (a missing or nil entry is \<open>None\<close>);
  \<^item> of the package: \<open>isKubernetesObjNotFoundError\<close>, the method \<^verbatim>\<open>wso.WorkspaceID()\<close>,
    the label keys \<open>pvcWorkspaceFeatureLabel\<close> and \<open>workspaceClassLabel\<close>, the annotation
    keys \<open>customTimeoutAnnotation\<close> and \<^verbatim>\<open>kubernetes.WorkspaceAdmissionAnnotation\<close>;
  \<^item> generated code: the table \<^verbatim>\<open>api.AdmissionLevel_name\<close>;
  \<^item> the Go library: \<^verbatim>\<open>time.ParseDuration\<close> and the clock reading
    \<^verbatim>\<open>time.Now().UnixNano()\<close>, an \<^verbatim>\<open>int64\<close>.
\<close>

record Manager =
  findWorkspacePod :: "string \<Rightarrow> go_error + Pod"
  isKubernetesObjNotFoundError :: "go_error \<Rightarrow> bool"
  getWorkspaceObjects :: "Pod \<Rightarrow> go_error + workspaceObjects"
  getWorkspaceStatus :: "workspaceObjects \<Rightarrow> go_error + WorkspaceStatus"
  WorkspaceID :: "workspaceObjects \<Rightarrow> string \<times> bool"
  Config_WorkspaceClasses :: "string \<rightharpoonup> WorkspaceClass"
  pvcWorkspaceFeatureLabel :: string
  workspaceClassLabel :: string
  time_Now_UnixNano :: "64 word"
  createWorkspaceSnapshotFromPVC ::
    "string \<Rightarrow> string \<Rightarrow> string \<Rightarrow> string \<Rightarrow> (string \<rightharpoonup> string) \<Rightarrow> go_error option"
  waitForWorkspaceVolumeSnapshotReady :: "string \<Rightarrow> bool \<times> go_error option"
  checkWorkspaceVolumeSnapshotIsReady :: "string \<Rightarrow> bool \<times> go_error option"
  connectToWorkspaceDaemon :: "workspaceObjects \<Rightarrow> go_error + WorkspaceContentServiceClient"
  markWorkspace :: "string \<Rightarrow> annotation \<Rightarrow> go_error option"
  AdmissionLevel_name :: "32 word \<rightharpoonup> string"
  WorkspaceAdmissionAnnotation :: string
  customTimeoutAnnotation :: string
  time_ParseDuration :: "string \<Rightarrow> go_error + int"

text \<open>The calls an operation makes to the cluster and to the daemon, with their arguments.\<close>

datatype call =
    Call_findWorkspacePod string
  | Call_getWorkspaceObjects Pod
  | Call_createWorkspaceSnapshotFromPVC string string string string "string \<rightharpoonup> string"
  | Call_waitForWorkspaceVolumeSnapshotReady string
  | Call_checkWorkspaceVolumeSnapshotIsReady string
  | Call_connectToWorkspaceDaemon workspaceObjects
  | Call_sync_TakeSnapshot wsdaemon_TakeSnapshotRequest
  | Call_sync_BackupWorkspace wsdaemon_BackupWorkspaceRequest
  | Call_markWorkspace string annotation

subsection \<open>Library functions on strings\<close>

text \<open>
  The verb \<^verbatim>\<open>%d\<close> of \<^verbatim>\<open>fmt.Sprintf\<close> on an integer: its decimal digits, after a minus sign
  when it is negative.
\<close>

definition digit_char :: "nat \<Rightarrow> char" where
  "digit_char d = ''0123456789'' ! d"

fun fmt_nat :: "nat \<Rightarrow> string" where
  "fmt_nat n = (if n < 10 then [digit_char n] else fmt_nat (n div 10) @ [digit_char (n mod 10)])"

declare fmt_nat.simps [simp del]

definition fmt_d :: "int \<Rightarrow> string" where
  "fmt_d i = (if i < 0 then CHR ''-'' # fmt_nat (nat (- i)) else fmt_nat (nat i))"

text \<open>
  \<^verbatim>\<open>strings.ToLower\<close> on the bytes of an ASCII string: the letters A to Z move to a to z,
  every other byte stays. (The names of a protocol-buffer enumeration are ASCII identifiers.)
\<close>

definition lower_char :: "char \<Rightarrow> char" where
  "lower_char c =
     (case map_of (zip ''ABCDEFGHIJKLMNOPQRSTUVWXYZ'' ''abcdefghijklmnopqrstuvwxyz'') c of
        Some l \<Rightarrow> l
      | None \<Rightarrow> c)"

definition ToLower :: "string \<Rightarrow> string" where
  "ToLower s = map lower_char s"

subsection \<open>The operations\<close>

text \<open>
  \<^verbatim>\<open>TakeSnapshot\<close>, lines 29 to 106. The tracing and logging calls have no part in the result
  and are left out. The daemon is connected with \<^verbatim>\<open>workspaceObjects{Pod: pod}\<close>, built from
  the pod that was found, as the source does.
\<close>

definition TakeSnapshot ::
  "Manager \<Rightarrow> TakeSnapshotRequest \<Rightarrow> (go_error + TakeSnapshotResponse) \<times> call list" where
  "TakeSnapshot m req =
    (let id = TakeSnapshotRequest_Id req; c1 = [Call_findWorkspacePod id] in
     case findWorkspacePod m id of
       Inl err \<Rightarrow>
         if isKubernetesObjNotFoundError m err
         then (Inl (status_Errorf NotFound ''workspace %s does not exist'' [S id]), c1)
         else (Inl (status_Errorf Internal ''cannot get workspace status: %q'' [E err]), c1)
     | Inr pod \<Rightarrow>
        (let c2 = c1 @ [Call_getWorkspaceObjects pod] in
         case getWorkspaceObjects m pod of
           Inl err \<Rightarrow> (Inl (status_Errorf Internal ''cannot get workspace status: %q'' [E err]), c2)
         | Inr wso \<Rightarrow>
            (case getWorkspaceStatus m wso of
               Inl err \<Rightarrow>
                 (Inl (status_Errorf Internal ''cannot get workspace status: %q'' [E err]), c2)
             | Inr sts \<Rightarrow>
                 if Phase sts \<noteq> RUNNING
                 then (Inl (status_Errorf FailedPrecondition
                              ''can only take snapshots of running workspaces'' []), c2)
                 else
                  (let labels = Pod_Labels (wso_Pod wso);
                       pvcFeatureEnabled = (labels (pvcWorkspaceFeatureLabel m) \<noteq> None);
                       pvcVolumeSnapshotClassName =
                         (case labels (workspaceClassLabel m) of
                            None \<Rightarrow> ''''
                          | Some wsClassName \<Rightarrow>
                              (case Config_WorkspaceClasses m wsClassName of
                                 None \<Rightarrow> ''''
                               | Some workspaceClass \<Rightarrow> SnapshotClass (PVC workspaceClass)))
                   in
                   if pvcFeatureEnabled
                   then
                    (let workspaceID = fst (WorkspaceID m wso);
                         pvcVolumeSnapshotName =
                           ''snapshot-'' @ workspaceID @ ''-'' @ fmt_d (sint (time_Now_UnixNano m));
                         pvcName = Pod_Name (wso_Pod wso);
                         c3 = c2 @ [Call_createWorkspaceSnapshotFromPVC pvcName
                                      pvcVolumeSnapshotName pvcVolumeSnapshotClassName
                                      workspaceID labels]
                     in
                     case createWorkspaceSnapshotFromPVC m pvcName pvcVolumeSnapshotName
                            pvcVolumeSnapshotClassName workspaceID labels of
                       Some err \<Rightarrow>
                         (Inl (status_Errorf Internal
                                 ''cannot create volume snapshot from pvc: %q'' [E err]), c3)
                     | None \<Rightarrow>
                         if \<not> TakeSnapshotRequest_ReturnImmediately req
                         then
                          (let c4 = c3 @ [Call_waitForWorkspaceVolumeSnapshotReady
                                            pvcVolumeSnapshotName]
                           in
                           case waitForWorkspaceVolumeSnapshotReady m pvcVolumeSnapshotName of
                             (ready, Some err) \<Rightarrow>
                               (Inl (status_Errorf Internal
                                  ''cannot wait for volume snapshot to be ready: %q'' [E err]), c4)
                           | (ready, None) \<Rightarrow>
                               if \<not> ready
                               then (Inl (status_Errorf Internal
                                            ''volume snapshot is not ready'' []), c4)
                               else (Inr \<lparr>TakeSnapshotResponse_Url = pvcVolumeSnapshotName\<rparr>, c4))
                         else (Inr \<lparr>TakeSnapshotResponse_Url = pvcVolumeSnapshotName\<rparr>, c3))
                   else
                    (let c3 = c2 @ [Call_connectToWorkspaceDaemon \<lparr>wso_Pod = pod\<rparr>] in
                     case connectToWorkspaceDaemon m \<lparr>wso_Pod = pod\<rparr> of
                       Inl err \<Rightarrow>
                         (Inl (status_Errorf Unavailable
                                 ''cannot connect to workspace daemon: %q'' [E err]), c3)
                     | Inr sync \<Rightarrow>
                        (let dreq = \<lparr>wsdaemon_TakeSnapshotRequest_Id = id,
                                     wsdaemon_TakeSnapshotRequest_ReturnImmediately =
                                       TakeSnapshotRequest_ReturnImmediately req\<rparr>;
                             c4 = c3 @ [Call_sync_TakeSnapshot dreq]
                         in
                         case sync_TakeSnapshot sync dreq of
                           Inl err \<Rightarrow> (Inl err, c4)
                         | Inr r \<Rightarrow>
                             (Inr \<lparr>TakeSnapshotResponse_Url = wsdaemon_TakeSnapshotResponse_Url r\<rparr>,
                              c4)))))))"

text \<open>\<^verbatim>\<open>GetVolumeSnapshot\<close>, lines 109 to 122.\<close>

definition GetVolumeSnapshot ::
  "Manager \<Rightarrow> GetVolumeSnapshotRequest \<Rightarrow> (go_error + GetVolumeSnapshotResponse) \<times> call list" where
  "GetVolumeSnapshot m req =
    (let id = GetVolumeSnapshotRequest_Id req; c1 = [Call_checkWorkspaceVolumeSnapshotIsReady id] in
     case checkWorkspaceVolumeSnapshotIsReady m id of
       (ready, Some err) \<Rightarrow>
         if status_Code err = NotFound
         then (Inl (status_Errorf NotFound ''volume snapshot %s does not exist'' [S id]), c1)
         else (Inl (status_Errorf Internal
                      ''cannot check if volume snapshot is ready: %q'' [E err]), c1)
     | (ready, None) \<Rightarrow>
         (Inr \<lparr>GetVolumeSnapshotResponse_Id = id, GetVolumeSnapshotResponse_Ready = ready\<rparr>, c1))"

text \<open>\<^verbatim>\<open>ControlAdmission\<close>, lines 125 to 169.\<close>

definition ControlAdmission ::
  "Manager \<Rightarrow> ControlAdmissionRequest \<Rightarrow> (go_error + unit) \<times> call list" where
  "ControlAdmission m req =
    (let id = ControlAdmissionRequest_Id req; c1 = [Call_findWorkspacePod id] in
     case findWorkspacePod m id of
       Inl err \<Rightarrow>
         if isKubernetesObjNotFoundError m err
         then (Inl (status_Errorf NotFound ''workspace %s does not exist'' [S id]), c1)
         else (Inl (status_Errorf Internal ''cannot get workspace status: %q'' [E err]), c1)
     | Inr pod \<Rightarrow>
        (let c2 = c1 @ [Call_getWorkspaceObjects pod] in
         case getWorkspaceObjects m pod of
           Inl err \<Rightarrow> (Inl (status_Errorf Internal ''cannot get workspace status: %q'' [E err]), c2)
         | Inr wso \<Rightarrow>
            (case getWorkspaceStatus m wso of
               Inl err \<Rightarrow>
                 (Inl (status_Errorf Internal ''cannot get workspace status: %q'' [E err]), c2)
             | Inr sts \<Rightarrow>
                 if Phase sts = STOPPING \<or> Phase sts = STOPPED
                 then (Inl (status_Errorf FailedPrecondition
                              ''cannot control admission of stopping workspaces'' []), c2)
                 else
                  (case AdmissionLevel_name m (ControlAdmissionRequest_Level req) of
                     None \<Rightarrow> (Inl (status_Errorf InvalidArgument ''invalid admission level'' []), c2)
                   | Some val0 \<Rightarrow>
                      (let val = ToLower val0;
                           mark = addMark (WorkspaceAdmissionAnnotation m) val;
                           c3 = c2 @ [Call_markWorkspace id mark]
                       in
                       case markWorkspace m id mark of
                         Some err \<Rightarrow>
                           (Inl (status_Errorf Internal
                                   ''cannot change workspace admission level: %q'' [E err]), c3)
                       | None \<Rightarrow> (Inr (), c3))))))"

text \<open>\<^verbatim>\<open>SetTimeout\<close>, lines 172 to 189. The operation does not look the pod up.\<close>

definition SetTimeout ::
  "Manager \<Rightarrow> SetTimeoutRequest \<Rightarrow> (go_error + unit) \<times> call list" where
  "SetTimeout m req =
    (case time_ParseDuration m (SetTimeoutRequest_Duration req) of
       Inl err \<Rightarrow>
         (Inl (xerrors_Errorf ''invalid duration \"%s\": %w''
                 [S (SetTimeoutRequest_Duration req), E err]), [])
     | Inr d \<Rightarrow>
        (let mark = addMark (customTimeoutAnnotation m) (SetTimeoutRequest_Duration req);
             c1 = [Call_markWorkspace (SetTimeoutRequest_Id req) mark]
         in
         case markWorkspace m (SetTimeoutRequest_Id req) mark of
           Some err \<Rightarrow> (Inl (xerrors_Errorf ''cannot set workspace timeout: %w'' [E err]), c1)
         | None \<Rightarrow> (Inr (), c1)))"

text \<open>\<^verbatim>\<open>BackupWorkspace\<close>, lines 192 to 219.\<close>

definition BackupWorkspace ::
  "Manager \<Rightarrow> BackupWorkspaceRequest \<Rightarrow> (go_error + BackupWorkspaceResponse) \<times> call list" where
  "BackupWorkspace m req =
    (let id = BackupWorkspaceRequest_Id req; c1 = [Call_findWorkspacePod id] in
     case findWorkspacePod m id of
       Inl err \<Rightarrow>
         if isKubernetesObjNotFoundError m err
         then (Inl (status_Errorf NotFound ''workspace pod for %s does not exist'' [S id]), c1)
         else (Inl (status_Errorf Internal ''cannot get workspace pod: %q'' [E err]), c1)
     | Inr pod \<Rightarrow>
        (let c2 = c1 @ [Call_connectToWorkspaceDaemon \<lparr>wso_Pod = pod\<rparr>] in
         case connectToWorkspaceDaemon m \<lparr>wso_Pod = pod\<rparr> of
           Inl err \<Rightarrow>
             (Inl (status_Errorf Unavailable ''cannot connect to workspace daemon: %q'' [E err]), c2)
         | Inr sync \<Rightarrow>
            (let dreq = \<lparr>wsdaemon_BackupWorkspaceRequest_Id = id\<rparr>;
                 c3 = c2 @ [Call_sync_BackupWorkspace dreq]
             in
             case sync_BackupWorkspace sync dreq of
               Inl err \<Rightarrow> (Inl err, c3)
             | Inr r \<Rightarrow>
                 (Inr \<lparr>BackupWorkspaceResponse_Url = wsdaemon_BackupWorkspaceResponse_Url r\<rparr>,
                  c3))))"

section \<open>An example cluster\<close>

text \<open>
  A concrete manager, used to run the operations on explicit inputs. Workspaces \<open>w1\<close>
  (served by the daemon) and \<open>w3\<close> (carrying the PVC feature label) are RUNNING, \<open>w4\<close> is
  STOPPED, \<open>w5\<close> is CREATING, \<open>w6\<close> is STOPPING; no other workspace has a pod. The daemon
  answers as in the spec's end-to-end scenario.
\<close>

definition example_Pod :: "string \<Rightarrow> Pod" where
  "example_Pod wid =
     \<lparr>Pod_Name = ''ws-'' @ wid,
      Pod_Labels =
        (if wid = ''w3''
         then [''gitpod.io/pvcFeature'' \<mapsto> ''true'', ''gitpod.io/workspaceClass'' \<mapsto> ''default'']
         else Map.empty)\<rparr>"

definition example_Phase :: "string \<Rightarrow> WorkspacePhase" where
  "example_Phase name =
     (if name = ''ws-w4'' then STOPPED
      else if name = ''ws-w5'' then CREATING
      else if name = ''ws-w6'' then STOPPING
      else RUNNING)"

definition example_sync :: WorkspaceContentServiceClient where
  "example_sync =
     \<lparr>sync_TakeSnapshot = (\<lambda>r. Inr \<lparr>wsdaemon_TakeSnapshotResponse_Url = ''backup://w1/1''\<rparr>),
      sync_BackupWorkspace = (\<lambda>r. Inr \<lparr>wsdaemon_BackupWorkspaceResponse_Url = ''backup://w1/2''\<rparr>)\<rparr>"

definition failing_sync :: WorkspaceContentServiceClient where
  "failing_sync =
     \<lparr>sync_TakeSnapshot = (\<lambda>r. Inl (status_Errorf ResourceExhausted ''disk full'' [])),
      sync_BackupWorkspace = (\<lambda>r. Inl (status_Errorf ResourceExhausted ''disk full'' []))\<rparr>"

definition example_Manager :: Manager where
  "example_Manager =
     \<lparr>findWorkspacePod =
        (\<lambda>wid. if wid \<in> {''w1'', ''w3'', ''w4'', ''w5'', ''w6''} then Inr (example_Pod wid)
               else Inl (k8s_StatusError 404 ''pod not found'')),
      isKubernetesObjNotFoundError =
        (\<lambda>err. case err of k8s_StatusError c s \<Rightarrow> c = 404 | _ \<Rightarrow> False),
      getWorkspaceObjects = (\<lambda>pod. Inr \<lparr>wso_Pod = pod\<rparr>),
      getWorkspaceStatus = (\<lambda>wso. Inr \<lparr>Phase = example_Phase (Pod_Name (wso_Pod wso))\<rparr>),
      WorkspaceID = (\<lambda>wso. (drop 3 (Pod_Name (wso_Pod wso)), True)),
      Config_WorkspaceClasses = [''default'' \<mapsto> \<lparr>PVC = \<lparr>SnapshotClass = ''csi-snapshots''\<rparr>\<rparr>],
      pvcWorkspaceFeatureLabel = ''gitpod.io/pvcFeature'',
      workspaceClassLabel = ''gitpod.io/workspaceClass'',
      time_Now_UnixNano = 1700000000000000000,
      createWorkspaceSnapshotFromPVC = (\<lambda>pvcName name cls wid labels. None),
      waitForWorkspaceVolumeSnapshotReady = (\<lambda>name. (True, None)),
      checkWorkspaceVolumeSnapshotIsReady =
        (\<lambda>sid. if sid = ''snapshot-w3-1'' then (True, None)
               else if sid = ''snapshot-w3-2'' then (False, None)
               else if sid = ''snapshot-w3-3'' then (False, Some (errors_New ''connection refused''))
               else (False, Some (status_Errorf NotFound ''not found'' []))),
      connectToWorkspaceDaemon = (\<lambda>wso. Inr example_sync),
      markWorkspace =
        (\<lambda>wid mark. if wid \<in> {''w1'', ''w3'', ''w4'', ''w5'', ''w6''} then None
                    else Some (status_Errorf NotFound ''workspace %s does not exist'' [S wid])),
      AdmissionLevel_name = [0 \<mapsto> ''ADMIT_OWNER_ONLY'', 1 \<mapsto> ''ADMIT_EVERYONE''],
      WorkspaceAdmissionAnnotation = ''gitpod/admission'',
      customTimeoutAnnotation = ''gitpod/customTimeout'',
      time_ParseDuration =
        (\<lambda>s. if s = ''1h'' then Inr 3600000000000
             else Inl (errors_New ''time: invalid duration''))\<rparr>"

text \<open>The example cluster at a moment when every annotation write meets a conflict.\<close>

definition conflict_Manager :: Manager where
  "conflict_Manager =
     example_Manager\<lparr>markWorkspace := (\<lambda>wid mark. Some (errors_New ''conflict''))\<rparr>"

text \<open>The names of the volume snapshots that a list of calls asks the cluster to create.\<close>

fun created_snapshot_names :: "call list \<Rightarrow> string list" where
  "created_snapshot_names [] = []"
| "created_snapshot_names (Call_createWorkspaceSnapshotFromPVC pvcName name cls wid labels # cs) =
     name # created_snapshot_names cs"
| "created_snapshot_names (c # cs) = created_snapshot_names cs"

section \<open>Decimal rendering is injective\<close>

lemma digit_cases: "d < 10 \<Longrightarrow> d \<in> {0, 1, 2, 3, 4, 5, 6, 7, 8, 9::nat}"
  by auto

lemma digit_char_inj: "a < 10 \<Longrightarrow> b < 10 \<Longrightarrow> digit_char a = digit_char b \<Longrightarrow> a = b"
  by (drule digit_cases, drule digit_cases) (auto simp add: digit_char_def)

lemma digit_char_not_minus: "d < 10 \<Longrightarrow> digit_char d \<noteq> CHR ''-''"
  by (drule digit_cases) (auto simp add: digit_char_def)

lemma fmt_nat_small: "n < 10 \<Longrightarrow> fmt_nat n = [digit_char n]"
  by (subst fmt_nat.simps) simp

lemma fmt_nat_large: "\<not> n < 10 \<Longrightarrow> fmt_nat n = fmt_nat (n div 10) @ [digit_char (n mod 10)]"
  by (subst fmt_nat.simps) simp

lemma fmt_nat_nonempty: "fmt_nat n \<noteq> []"
  by (cases "n < 10") (simp_all add: fmt_nat_small fmt_nat_large)

lemma fmt_nat_inj: "fmt_nat a = fmt_nat b \<Longrightarrow> a = b"
proof (induction a arbitrary: b rule: fmt_nat.induct)
  case (1 n)
  note ne = fmt_nat_nonempty fmt_nat_nonempty [THEN not_sym]
  show ?case
  proof (cases "n < 10")
    case True
    show ?thesis
    proof (cases "b < 10")
      case bs: True
      with True "1.prems" show ?thesis
        by (simp add: fmt_nat_small digit_char_inj)
    next
      case False
      with True "1.prems" show ?thesis
        by (simp add: fmt_nat_small fmt_nat_large ne)
    qed
  next
    case False
    show ?thesis
    proof (cases "b < 10")
      case True
      with False "1.prems" show ?thesis
        by (simp add: fmt_nat_small fmt_nat_large ne)
    next
      case bf: False
      with False "1.prems" have p: "fmt_nat (n div 10) = fmt_nat (b div 10)"
        and d: "digit_char (n mod 10) = digit_char (b mod 10)"
        by (simp_all add: fmt_nat_large)
      from "1.IH" [OF False p] have q: "n div 10 = b div 10" .
      from d have r: "n mod 10 = b mod 10"
        by (rule digit_char_inj [rotated 2]) simp_all
      from q r show ?thesis by (metis div_mult_mod_eq)
    qed
  qed
qed

lemma fmt_nat_no_minus: "CHR ''-'' \<notin> set (fmt_nat n)"
proof (induction n rule: fmt_nat.induct)
  case (1 n)
  note dc = digit_char_not_minus digit_char_not_minus [THEN not_sym]
  show ?case
  proof (cases "n < 10")
    case True
    then show ?thesis by (simp add: fmt_nat_small dc)
  next
    case False
    with "1.IH" show ?thesis by (simp add: fmt_nat_large dc)
  qed
qed

lemma fmt_nat_hd: "hd (fmt_nat n) \<noteq> CHR ''-''"
  using fmt_nat_no_minus [of n] fmt_nat_nonempty [of n] by (metis hd_in_set)

lemma fmt_d_inj: "fmt_d i = fmt_d j \<Longrightarrow> i = j"
proof -
  assume e: "fmt_d i = fmt_d j"
  consider "i < 0" "j < 0" | "i < 0" "\<not> j < 0" | "\<not> i < 0" "j < 0" | "\<not> i < 0" "\<not> j < 0"
    by blast
  then show "i = j"
  proof cases
    case 1
    with e have "fmt_nat (nat (- i)) = fmt_nat (nat (- j))" by (simp add: fmt_d_def)
    then have "nat (- i) = nat (- j)" by (rule fmt_nat_inj)
    with 1 show ?thesis by simp
  next
    case 2
    with e have "CHR ''-'' # fmt_nat (nat (- i)) = fmt_nat (nat j)" by (simp add: fmt_d_def)
    then have "hd (fmt_nat (nat j)) = CHR ''-''" by (metis list.sel(1))
    with fmt_nat_hd show ?thesis by simp
  next
    case 3
    with e have "fmt_nat (nat i) = CHR ''-'' # fmt_nat (nat (- j))" by (simp add: fmt_d_def)
    then have "hd (fmt_nat (nat i)) = CHR ''-''" by simp
    with fmt_nat_hd show ?thesis by simp
  next
    case 4
    with e have "fmt_nat (nat i) = fmt_nat (nat j)" by (simp add: fmt_d_def)
    then have "nat i = nat j" by (rule fmt_nat_inj)
    with 4 show ?thesis by simp
  qed
qed

lemma fmt_d_sint_eq: "(fmt_d (sint (t :: 64 word)) = fmt_d (sint t')) = (t = t')"
  by (auto dest!: fmt_d_inj intro: signed_word_eqI)

lemma example_now: "fmt_d 1700000000000000000 = ''1700000000000000000''"
  by (simp add: fmt_d_def fmt_nat.simps digit_char_def)

lemma example_lower: "ToLower ''ADMIT_EVERYONE'' = ''admit_everyone''"
  by (simp add: ToLower_def lower_char_def)

lemmas example_defs = example_Manager_def example_Pod_def example_Phase_def example_sync_def

section \<open>Workspaces without a pod\<close>

text \<open>
  Claim C1, as the code has it. When the pod lookup reports that the workspace has no pod,
  \<^verbatim>\<open>TakeSnapshot\<close>, \<^verbatim>\<open>BackupWorkspace\<close> and \<^verbatim>\<open>ControlAdmission\<close> return a NotFound status
  error and make no call but the lookup itself: no mark, no snapshot, no daemon connection.
  \<^verbatim>\<open>SetTimeout\<close> never looks the pod up. With a duration that does not parse it returns the
  parse error wrapped by \<^verbatim>\<open>xerrors\<close> and makes no call; with one that parses it attempts
  the mark and returns success, or the mark's error wrapped by \<^verbatim>\<open>xerrors\<close>.
\<close>

theorem not_found_before_any_mutation:
  assumes "findWorkspacePod m wid = Inl err"
    and "isKubernetesObjNotFoundError m err"
  shows "TakeSnapshot m \<lparr>TakeSnapshotRequest_Id = wid, TakeSnapshotRequest_ReturnImmediately = ri\<rparr> =
           (Inl (status_Errorf NotFound ''workspace %s does not exist'' [S wid]),
            [Call_findWorkspacePod wid])
       \<and> BackupWorkspace m \<lparr>BackupWorkspaceRequest_Id = wid\<rparr> =
           (Inl (status_Errorf NotFound ''workspace pod for %s does not exist'' [S wid]),
            [Call_findWorkspacePod wid])
       \<and> ControlAdmission m \<lparr>ControlAdmissionRequest_Id = wid, ControlAdmissionRequest_Level = lvl\<rparr> =
           (Inl (status_Errorf NotFound ''workspace %s does not exist'' [S wid]),
            [Call_findWorkspacePod wid])
       \<and> (\<forall>perr. time_ParseDuration m d = Inl perr \<longrightarrow>
            SetTimeout m \<lparr>SetTimeoutRequest_Id = wid, SetTimeoutRequest_Duration = d\<rparr> =
              (Inl (xerrors_Errorf ''invalid duration \"%s\": %w'' [S d, E perr]), []))
       \<and> (\<forall>n. time_ParseDuration m d = Inr n \<longrightarrow>
            SetTimeout m \<lparr>SetTimeoutRequest_Id = wid, SetTimeoutRequest_Duration = d\<rparr> =
              ((case markWorkspace m wid (addMark (customTimeoutAnnotation m) d) of
                  None \<Rightarrow> Inr ()
                | Some e \<Rightarrow> Inl (xerrors_Errorf ''cannot set workspace timeout: %w'' [E e])),
               [Call_markWorkspace wid (addMark (customTimeoutAnnotation m) d)]))"
  using assms
  by (simp add: TakeSnapshot_def BackupWorkspace_def ControlAdmission_def SetTimeout_def Let_def
      split: option.split)

text \<open>The theorem of claim C1 at the unknown workspace \<open>w2\<close> of the example cluster.\<close>

theorem not_found_before_any_mutation_witness:
  "TakeSnapshot example_Manager
     \<lparr>TakeSnapshotRequest_Id = ''w2'', TakeSnapshotRequest_ReturnImmediately = True\<rparr> =
     (Inl (status_Errorf NotFound ''workspace %s does not exist'' [S ''w2'']),
      [Call_findWorkspacePod ''w2''])
   \<and> BackupWorkspace example_Manager \<lparr>BackupWorkspaceRequest_Id = ''w2''\<rparr> =
     (Inl (status_Errorf NotFound ''workspace pod for %s does not exist'' [S ''w2'']),
      [Call_findWorkspacePod ''w2''])
   \<and> ControlAdmission example_Manager
       \<lparr>ControlAdmissionRequest_Id = ''w2'', ControlAdmissionRequest_Level = 1\<rparr> =
     (Inl (status_Errorf NotFound ''workspace %s does not exist'' [S ''w2'']),
      [Call_findWorkspacePod ''w2''])
   \<and> SetTimeout example_Manager
       \<lparr>SetTimeoutRequest_Id = ''w2'', SetTimeoutRequest_Duration = ''1h''\<rparr> =
     (Inl (xerrors_Errorf ''cannot set workspace timeout: %w''
             [E (status_Errorf NotFound ''workspace %s does not exist'' [S ''w2''])]),
      [Call_markWorkspace ''w2'' (addMark ''gitpod/customTimeout'' ''1h'')])
   \<and> SetTimeout example_Manager
       \<lparr>SetTimeoutRequest_Id = ''w2'', SetTimeoutRequest_Duration = ''soon''\<rparr> =
     (Inl (xerrors_Errorf ''invalid duration \"%s\": %w''
             [S ''soon'', E (errors_New ''time: invalid duration'')]), [])"
  using not_found_before_any_mutation [of example_Manager "''w2''"
      "k8s_StatusError 404 ''pod not found''" True 1 "''1h''"]
    not_found_before_any_mutation [of example_Manager "''w2''"
      "k8s_StatusError 404 ''pod not found''" True 1 "''soon''"]
  by (simp add: example_Manager_def)

text \<open>
  Claim C1 as stated fails for \<^verbatim>\<open>SetTimeout\<close>: for the unknown workspace \<open>w2\<close> a mark is
  attempted when the duration parses, and the error for an unparsable duration is not
  classified NotFound.
\<close>

theorem SetTimeout_without_pod_counterexample:
  "findWorkspacePod example_Manager ''w2'' = Inl (k8s_StatusError 404 ''pod not found'')
   \<and> isKubernetesObjNotFoundError example_Manager (k8s_StatusError 404 ''pod not found'')
   \<and> SetTimeout example_Manager
       \<lparr>SetTimeoutRequest_Id = ''w2'', SetTimeoutRequest_Duration = ''1h''\<rparr> =
     (Inl (xerrors_Errorf ''cannot set workspace timeout: %w''
             [E (status_Errorf NotFound ''workspace %s does not exist'' [S ''w2''])]),
      [Call_markWorkspace ''w2'' (addMark ''gitpod/customTimeout'' ''1h'')])
   \<and> SetTimeout example_Manager
       \<lparr>SetTimeoutRequest_Id = ''w2'', SetTimeoutRequest_Duration = ''not-a-duration''\<rparr> =
     (Inl (xerrors_Errorf ''invalid duration \"%s\": %w''
             [S ''not-a-duration'', E (errors_New ''time: invalid duration'')]), [])
   \<and> status_Code (xerrors_Errorf ''invalid duration \"%s\": %w''
             [S ''not-a-duration'', E (errors_New ''time: invalid duration'')]) \<noteq> NotFound"
  by (simp add: example_Manager_def SetTimeout_def Let_def)

section \<open>Admission control\<close>

text \<open>
  Claim C2, as the code has it. For an existing workspace whose phase is neither STOPPING nor
  STOPPED, \<^verbatim>\<open>ControlAdmission\<close> with a level that \<^verbatim>\<open>api.AdmissionLevel_name\<close> does not
  list returns an InvalidArgument status error, and no mark is attempted.
\<close>

theorem ControlAdmission_invalid_level:
  assumes "findWorkspacePod m (ControlAdmissionRequest_Id req) = Inr pod"
    and "getWorkspaceObjects m pod = Inr wso"
    and "getWorkspaceStatus m wso = Inr sts"
    and "Phase sts \<noteq> STOPPING" and "Phase sts \<noteq> STOPPED"
    and "AdmissionLevel_name m (ControlAdmissionRequest_Level req) = None"
  shows "ControlAdmission m req =
           (Inl (status_Errorf InvalidArgument ''invalid admission level'' []),
            [Call_findWorkspacePod (ControlAdmissionRequest_Id req), Call_getWorkspaceObjects pod])"
  using assms by (simp add: ControlAdmission_def Let_def)

text \<open>The theorem of claim C2 at the CREATING workspace \<open>w5\<close> and the unlisted level 7.\<close>

theorem ControlAdmission_invalid_level_witness:
  "ControlAdmission example_Manager
     \<lparr>ControlAdmissionRequest_Id = ''w5'', ControlAdmissionRequest_Level = 7\<rparr> =
     (Inl (status_Errorf InvalidArgument ''invalid admission level'' []),
      [Call_findWorkspacePod ''w5'', Call_getWorkspaceObjects (example_Pod ''w5'')])"
  using ControlAdmission_invalid_level [of example_Manager
      "\<lparr>ControlAdmissionRequest_Id = ''w5'', ControlAdmissionRequest_Level = 7\<rparr>"
      "example_Pod ''w5''" "\<lparr>wso_Pod = example_Pod ''w5''\<rparr>" "\<lparr>Phase = CREATING\<rparr>"]
  by (simp add: example_defs Let_def)

text \<open>
  Claim C2 as stated fails in phase STOPPED: for the workspace \<open>w4\<close> and the unlisted
  level 7 the error is FailedPrecondition, not InvalidArgument.
\<close>

theorem ControlAdmission_invalid_level_counterexample:
  "findWorkspacePod example_Manager ''w4'' = Inr (example_Pod ''w4'')
   \<and> getWorkspaceObjects example_Manager (example_Pod ''w4'') = Inr \<lparr>wso_Pod = example_Pod ''w4''\<rparr>
   \<and> getWorkspaceStatus example_Manager \<lparr>wso_Pod = example_Pod ''w4''\<rparr> = Inr \<lparr>Phase = STOPPED\<rparr>
   \<and> AdmissionLevel_name example_Manager 7 = None
   \<and> fst (ControlAdmission example_Manager
        \<lparr>ControlAdmissionRequest_Id = ''w4'', ControlAdmissionRequest_Level = 7\<rparr>) =
      Inl (status_Errorf FailedPrecondition ''cannot control admission of stopping workspaces'' [])
   \<and> status_Code (status_Errorf FailedPrecondition
        ''cannot control admission of stopping workspaces'' []) \<noteq> InvalidArgument"
  by (simp add: example_defs ControlAdmission_def Let_def)

text \<open>
  Claim C10. The phase is checked before the level: for an existing workspace in phase
  STOPPING or STOPPED, \<^verbatim>\<open>ControlAdmission\<close> with an unlisted level returns the
  FailedPrecondition error and not the InvalidArgument one, and the outcome is the same
  whatever level the request carries.
\<close>

theorem ControlAdmission_phase_before_level:
  assumes "findWorkspacePod m (ControlAdmissionRequest_Id req) = Inr pod"
    and "getWorkspaceObjects m pod = Inr wso"
    and "getWorkspaceStatus m wso = Inr sts"
    and "Phase sts = STOPPING \<or> Phase sts = STOPPED"
    and "AdmissionLevel_name m (ControlAdmissionRequest_Level req) = None"
  shows "fst (ControlAdmission m req) =
           Inl (status_Errorf FailedPrecondition
                  ''cannot control admission of stopping workspaces'' [])
       \<and> fst (ControlAdmission m req) \<noteq>
           Inl (status_Errorf InvalidArgument ''invalid admission level'' [])
       \<and> (\<forall>l. ControlAdmission m (req\<lparr>ControlAdmissionRequest_Level := l\<rparr>) =
                ControlAdmission m req)"
  using assms by (auto simp add: ControlAdmission_def Let_def)

text \<open>The theorem of claim C10 at the STOPPING workspace \<open>w6\<close> and the unlisted level 7.\<close>

theorem ControlAdmission_phase_before_level_witness:
  "fst (ControlAdmission example_Manager
          \<lparr>ControlAdmissionRequest_Id = ''w6'', ControlAdmissionRequest_Level = 7\<rparr>) =
     Inl (status_Errorf FailedPrecondition ''cannot control admission of stopping workspaces'' [])"
  using ControlAdmission_phase_before_level [of example_Manager
      "\<lparr>ControlAdmissionRequest_Id = ''w6'', ControlAdmissionRequest_Level = 7\<rparr>"
      "example_Pod ''w6''" "\<lparr>wso_Pod = example_Pod ''w6''\<rparr>" "\<lparr>Phase = STOPPING\<rparr>"]
  by (simp add: example_defs Let_def)

text \<open>
  Claim C4, as the code has it. For an existing workspace, \<^verbatim>\<open>ControlAdmission\<close> in phase
  STOPPING or STOPPED returns a FailedPrecondition status error and attempts no mark. In phase
  RUNNING or CREATING with a listed level it attempts exactly one mark, the admission
  annotation with the lower-cased name of the level; it succeeds when that mark reports no
  error and returns an Internal status error when the mark fails.
\<close>

theorem ControlAdmission_by_phase:
  assumes "findWorkspacePod m (ControlAdmissionRequest_Id req) = Inr pod"
    and "getWorkspaceObjects m pod = Inr wso"
    and "getWorkspaceStatus m wso = Inr sts"
  shows "(Phase sts = STOPPING \<or> Phase sts = STOPPED \<longrightarrow>
            ControlAdmission m req =
              (Inl (status_Errorf FailedPrecondition
                      ''cannot control admission of stopping workspaces'' []),
               [Call_findWorkspacePod (ControlAdmissionRequest_Id req),
                Call_getWorkspaceObjects pod]))
       \<and> (Phase sts = RUNNING \<or> Phase sts = CREATING \<longrightarrow>
            (\<forall>name. AdmissionLevel_name m (ControlAdmissionRequest_Level req) = Some name \<longrightarrow>
               ControlAdmission m req =
                 ((case markWorkspace m (ControlAdmissionRequest_Id req)
                          (addMark (WorkspaceAdmissionAnnotation m) (ToLower name)) of
                     None \<Rightarrow> Inr ()
                   | Some e \<Rightarrow>
                       Inl (status_Errorf Internal
                              ''cannot change workspace admission level: %q'' [E e])),
                  [Call_findWorkspacePod (ControlAdmissionRequest_Id req),
                   Call_getWorkspaceObjects pod,
                   Call_markWorkspace (ControlAdmissionRequest_Id req)
                     (addMark (WorkspaceAdmissionAnnotation m) (ToLower name))])))"
  using assms by (auto simp add: ControlAdmission_def Let_def split: option.split)

text \<open>
  The theorem of claim C4 at the STOPPED workspace \<open>w4\<close>, at the RUNNING workspace
  \<open>w1\<close>, and at the CREATING workspace \<open>w5\<close> when the mark fails, with the level 1.
\<close>

theorem ControlAdmission_by_phase_witness:
  "ControlAdmission example_Manager
     \<lparr>ControlAdmissionRequest_Id = ''w4'', ControlAdmissionRequest_Level = 1\<rparr> =
     (Inl (status_Errorf FailedPrecondition ''cannot control admission of stopping workspaces'' []),
      [Call_findWorkspacePod ''w4'', Call_getWorkspaceObjects (example_Pod ''w4'')])
   \<and> ControlAdmission example_Manager
       \<lparr>ControlAdmissionRequest_Id = ''w1'', ControlAdmissionRequest_Level = 1\<rparr> =
     (Inr (),
      [Call_findWorkspacePod ''w1'', Call_getWorkspaceObjects (example_Pod ''w1''),
       Call_markWorkspace ''w1'' (addMark ''gitpod/admission'' ''admit_everyone'')])
   \<and> fst (ControlAdmission conflict_Manager
       \<lparr>ControlAdmissionRequest_Id = ''w5'', ControlAdmissionRequest_Level = 1\<rparr>) =
     Inl (status_Errorf Internal ''cannot change workspace admission level: %q''
            [E (errors_New ''conflict'')])"
  using ControlAdmission_by_phase [of conflict_Manager
      "\<lparr>ControlAdmissionRequest_Id = ''w5'', ControlAdmissionRequest_Level = 1\<rparr>"
      "example_Pod ''w5''" "\<lparr>wso_Pod = example_Pod ''w5''\<rparr>" "\<lparr>Phase = CREATING\<rparr>"]
    ControlAdmission_by_phase [of example_Manager
      "\<lparr>ControlAdmissionRequest_Id = ''w4'', ControlAdmissionRequest_Level = 1\<rparr>"
      "example_Pod ''w4''" "\<lparr>wso_Pod = example_Pod ''w4''\<rparr>" "\<lparr>Phase = STOPPED\<rparr>"]
    ControlAdmission_by_phase [of example_Manager
      "\<lparr>ControlAdmissionRequest_Id = ''w1'', ControlAdmissionRequest_Level = 1\<rparr>"
      "example_Pod ''w1''" "\<lparr>wso_Pod = example_Pod ''w1''\<rparr>" "\<lparr>Phase = RUNNING\<rparr>"]
  by (simp add: conflict_Manager_def example_defs example_lower Let_def)

text \<open>
  Claim C4 as stated fails when the mark fails: the workspace \<open>w1\<close> is RUNNING and the level
  1 is listed, and \<^verbatim>\<open>ControlAdmission\<close> returns an Internal status error.
\<close>

theorem ControlAdmission_mark_failure_counterexample:
  "findWorkspacePod conflict_Manager ''w1'' = Inr (example_Pod ''w1'')
   \<and> getWorkspaceObjects conflict_Manager (example_Pod ''w1'') = Inr \<lparr>wso_Pod = example_Pod ''w1''\<rparr>
   \<and> getWorkspaceStatus conflict_Manager \<lparr>wso_Pod = example_Pod ''w1''\<rparr> = Inr \<lparr>Phase = RUNNING\<rparr>
   \<and> AdmissionLevel_name conflict_Manager 1 = Some ''ADMIT_EVERYONE''
   \<and> ControlAdmission conflict_Manager
       \<lparr>ControlAdmissionRequest_Id = ''w1'', ControlAdmissionRequest_Level = 1\<rparr> =
     (Inl (status_Errorf Internal ''cannot change workspace admission level: %q''
             [E (errors_New ''conflict'')]),
      [Call_findWorkspacePod ''w1'', Call_getWorkspaceObjects (example_Pod ''w1''),
       Call_markWorkspace ''w1'' (addMark ''gitpod/admission'' ''admit_everyone'')])"
  by (simp add: conflict_Manager_def example_defs ControlAdmission_def Let_def example_lower)

section \<open>Timeouts\<close>

text \<open>
  Claim C3, as the code has it. When the duration does not parse, \<^verbatim>\<open>SetTimeout\<close> makes no
  call at all (so no annotation is written) and returns the parse error wrapped by
  \<^verbatim>\<open>xerrors\<close>; that error is not a gRPC status error, and its code is Unknown.
\<close>

theorem SetTimeout_unparsable_duration:
  assumes "time_ParseDuration m (SetTimeoutRequest_Duration req) = Inl perr"
  shows "SetTimeout m req =
           (Inl (xerrors_Errorf ''invalid duration \"%s\": %w''
                   [S (SetTimeoutRequest_Duration req), E perr]), [])
       \<and> status_Code (xerrors_Errorf ''invalid duration \"%s\": %w''
                   [S (SetTimeoutRequest_Duration req), E perr]) = Unknown"
  using assms by (simp add: SetTimeout_def Let_def)

text \<open>The theorem of claim C3 at the duration \<open>soon\<close>.\<close>

theorem SetTimeout_unparsable_duration_witness:
  "SetTimeout example_Manager
     \<lparr>SetTimeoutRequest_Id = ''w1'', SetTimeoutRequest_Duration = ''soon''\<rparr> =
     (Inl (xerrors_Errorf ''invalid duration \"%s\": %w''
             [S ''soon'', E (errors_New ''time: invalid duration'')]), [])"
  using SetTimeout_unparsable_duration [of example_Manager
      "\<lparr>SetTimeoutRequest_Id = ''w1'', SetTimeoutRequest_Duration = ''soon''\<rparr>"
      "errors_New ''time: invalid duration''"]
  by (simp add: example_Manager_def)

text \<open>
  Claim C3 as stated fails on the classification: the error returned for the duration
  \<open>not-a-duration\<close> does not have the code InvalidArgument.
\<close>

theorem SetTimeout_unparsable_duration_counterexample:
  "time_ParseDuration example_Manager ''not-a-duration'' = Inl (errors_New ''time: invalid duration'')
   \<and> fst (SetTimeout example_Manager
        \<lparr>SetTimeoutRequest_Id = ''w1'', SetTimeoutRequest_Duration = ''not-a-duration''\<rparr>) =
      Inl (xerrors_Errorf ''invalid duration \"%s\": %w''
             [S ''not-a-duration'', E (errors_New ''time: invalid duration'')])
   \<and> status_Code (xerrors_Errorf ''invalid duration \"%s\": %w''
             [S ''not-a-duration'', E (errors_New ''time: invalid duration'')]) \<noteq> InvalidArgument"
  by (simp add: example_Manager_def SetTimeout_def Let_def)

section \<open>Snapshots\<close>

text \<open>
  Claim C6. For an existing workspace whose derived phase is not RUNNING, \<^verbatim>\<open>TakeSnapshot\<close>
  returns a FailedPrecondition status error. The phase is the one derived in this call from
  the pod that this call found, and the only calls made are that lookup and the read of the
  workspace objects: neither snapshot strategy is reached.
\<close>

theorem TakeSnapshot_requires_running:
  assumes "findWorkspacePod m (TakeSnapshotRequest_Id req) = Inr pod"
    and "getWorkspaceObjects m pod = Inr wso"
    and "getWorkspaceStatus m wso = Inr sts"
    and "Phase sts \<noteq> RUNNING"
  shows "TakeSnapshot m req =
           (Inl (status_Errorf FailedPrecondition
                   ''can only take snapshots of running workspaces'' []),
            [Call_findWorkspacePod (TakeSnapshotRequest_Id req), Call_getWorkspaceObjects pod])"
  using assms by (simp add: TakeSnapshot_def Let_def)

text \<open>The theorem of claim C6 at the STOPPED workspace \<open>w4\<close>.\<close>

theorem TakeSnapshot_requires_running_witness:
  "TakeSnapshot example_Manager
     \<lparr>TakeSnapshotRequest_Id = ''w4'', TakeSnapshotRequest_ReturnImmediately = False\<rparr> =
     (Inl (status_Errorf FailedPrecondition ''can only take snapshots of running workspaces'' []),
      [Call_findWorkspacePod ''w4'', Call_getWorkspaceObjects (example_Pod ''w4'')])"
  using TakeSnapshot_requires_running [of example_Manager
      "\<lparr>TakeSnapshotRequest_Id = ''w4'', TakeSnapshotRequest_ReturnImmediately = False\<rparr>"
      "example_Pod ''w4''" "\<lparr>wso_Pod = example_Pod ''w4''\<rparr>" "\<lparr>Phase = STOPPED\<rparr>"]
  by (simp add: example_defs)

text \<open>
  Claim C5, as the code has it. For a RUNNING workspace whose pod carries the PVC feature
  label, \<^verbatim>\<open>TakeSnapshot\<close> asks for exactly one volume snapshot, named \<open>snapshot-\<close>, the
  workspace ID, \<open>-\<close> and the clock reading in decimal; a successful call returns that name as
  the URL; and a call made at a different clock reading asks for a different name.
\<close>

theorem TakeSnapshot_pvc_snapshot_name:
  assumes "findWorkspacePod m (TakeSnapshotRequest_Id req) = Inr pod"
    and "getWorkspaceObjects m pod = Inr wso"
    and "getWorkspaceStatus m wso = Inr sts"
    and "Phase sts = RUNNING"
    and "Pod_Labels (wso_Pod wso) (pvcWorkspaceFeatureLabel m) = Some v"
  shows "created_snapshot_names (snd (TakeSnapshot m req)) =
           [''snapshot-'' @ fst (WorkspaceID m wso) @ ''-'' @ fmt_d (sint (time_Now_UnixNano m))]
       \<and> (\<forall>r. fst (TakeSnapshot m req) = Inr r \<longrightarrow>
             TakeSnapshotResponse_Url r =
               ''snapshot-'' @ fst (WorkspaceID m wso) @ ''-'' @ fmt_d (sint (time_Now_UnixNano m)))
       \<and> (\<forall>t ri. t \<noteq> time_Now_UnixNano m \<longrightarrow>
             created_snapshot_names
               (snd (TakeSnapshot (m\<lparr>time_Now_UnixNano := t\<rparr>)
                      (req\<lparr>TakeSnapshotRequest_ReturnImmediately := ri\<rparr>))) \<noteq>
             created_snapshot_names (snd (TakeSnapshot m req)))"
proof -
  let ?name = "\<lambda>t. ''snapshot-'' @ fst (WorkspaceID m wso) @ ''-'' @ fmt_d (sint t)"
  have names: "created_snapshot_names (snd (TakeSnapshot m' req')) = [?name (time_Now_UnixNano m')]"
    if "TakeSnapshotRequest_Id req' = TakeSnapshotRequest_Id req"
      and "\<exists>t. m' = m\<lparr>time_Now_UnixNano := t\<rparr>" for m' req'
    using assms that
    by (auto simp add: TakeSnapshot_def Let_def split: option.split prod.split)
  have same: "m = m\<lparr>time_Now_UnixNano := time_Now_UnixNano m\<rparr>" by simp
  have one: "created_snapshot_names (snd (TakeSnapshot m req)) = [?name (time_Now_UnixNano m)]"
    using names [of req m] same by blast
  have url: "TakeSnapshotResponse_Url r = ?name (time_Now_UnixNano m)"
    if "fst (TakeSnapshot m req) = Inr r" for r
    using assms that
    by (auto simp add: TakeSnapshot_def Let_def split: option.splits prod.splits if_splits)
  have other: "created_snapshot_names
               (snd (TakeSnapshot (m\<lparr>time_Now_UnixNano := t\<rparr>)
                      (req\<lparr>TakeSnapshotRequest_ReturnImmediately := ri\<rparr>))) \<noteq>
             created_snapshot_names (snd (TakeSnapshot m req))"
    if "t \<noteq> time_Now_UnixNano m" for t ri
  proof -
    have "created_snapshot_names
               (snd (TakeSnapshot (m\<lparr>time_Now_UnixNano := t\<rparr>)
                      (req\<lparr>TakeSnapshotRequest_ReturnImmediately := ri\<rparr>))) = [?name t]"
      using names [of "req\<lparr>TakeSnapshotRequest_ReturnImmediately := ri\<rparr>"
          "m\<lparr>time_Now_UnixNano := t\<rparr>"] by auto
    with one that show ?thesis by (simp add: fmt_d_sint_eq)
  qed
  from one url other show ?thesis by blast
qed

text \<open>
  The theorem of claim C5 at the workspace \<open>w3\<close>, at the clock reading of the example
  cluster and one nanosecond later.
\<close>

theorem TakeSnapshot_pvc_snapshot_name_witness:
  "created_snapshot_names
     (snd (TakeSnapshot example_Manager
        \<lparr>TakeSnapshotRequest_Id = ''w3'', TakeSnapshotRequest_ReturnImmediately = True\<rparr>)) =
     [''snapshot-w3-1700000000000000000'']
   \<and> created_snapshot_names
     (snd (TakeSnapshot (example_Manager\<lparr>time_Now_UnixNano := 1700000000000000001\<rparr>)
        \<lparr>TakeSnapshotRequest_Id = ''w3'', TakeSnapshotRequest_ReturnImmediately = True\<rparr>)) \<noteq>
     [''snapshot-w3-1700000000000000000'']"
proof -
  let ?req = "\<lparr>TakeSnapshotRequest_Id = ''w3'', TakeSnapshotRequest_ReturnImmediately = True\<rparr>"
  have "created_snapshot_names (snd (TakeSnapshot example_Manager ?req)) =
           [''snapshot-'' @ fst (WorkspaceID example_Manager \<lparr>wso_Pod = example_Pod ''w3''\<rparr>) @ ''-'' @
            fmt_d (sint (time_Now_UnixNano example_Manager))]
       \<and> (\<forall>r. fst (TakeSnapshot example_Manager ?req) = Inr r \<longrightarrow>
             TakeSnapshotResponse_Url r =
               ''snapshot-'' @ fst (WorkspaceID example_Manager \<lparr>wso_Pod = example_Pod ''w3''\<rparr>) @ ''-'' @
               fmt_d (sint (time_Now_UnixNano example_Manager)))
       \<and> (\<forall>t ri. t \<noteq> time_Now_UnixNano example_Manager \<longrightarrow>
             created_snapshot_names
               (snd (TakeSnapshot (example_Manager\<lparr>time_Now_UnixNano := t\<rparr>)
                      (?req\<lparr>TakeSnapshotRequest_ReturnImmediately := ri\<rparr>))) \<noteq>
             created_snapshot_names (snd (TakeSnapshot example_Manager ?req)))"
    by (rule TakeSnapshot_pvc_snapshot_name [of example_Manager ?req "example_Pod ''w3''"
          "\<lparr>wso_Pod = example_Pod ''w3''\<rparr>" "\<lparr>Phase = RUNNING\<rparr>" "''true''"])
       (simp_all add: example_defs)
  then have a: "created_snapshot_names (snd (TakeSnapshot example_Manager ?req)) =
           [''snapshot-'' @ fst (WorkspaceID example_Manager \<lparr>wso_Pod = example_Pod ''w3''\<rparr>) @ ''-'' @
            fmt_d (sint (time_Now_UnixNano example_Manager))]"
    and b: "\<And>t ri. t \<noteq> time_Now_UnixNano example_Manager \<Longrightarrow>
             created_snapshot_names
               (snd (TakeSnapshot (example_Manager\<lparr>time_Now_UnixNano := t\<rparr>)
                      (?req\<lparr>TakeSnapshotRequest_ReturnImmediately := ri\<rparr>))) \<noteq>
             created_snapshot_names (snd (TakeSnapshot example_Manager ?req))"
    by blast+
  have now: "time_Now_UnixNano example_Manager = 1700000000000000000"
    by (simp add: example_Manager_def)
  have wid: "fst (WorkspaceID example_Manager \<lparr>wso_Pod = example_Pod ''w3''\<rparr>) = ''w3''"
    by (simp add: example_Manager_def example_Pod_def)
  have c: "created_snapshot_names (snd (TakeSnapshot example_Manager ?req)) =
     [''snapshot-w3-1700000000000000000'']"
    using a by (simp add: now wid example_now)
  have "(1700000000000000001 :: 64 word) \<noteq> time_Now_UnixNano example_Manager"
    by (simp add: now)
  from b [OF this, of True] c show ?thesis by simp
qed

text \<open>
  Claim C5 as stated fails on uniqueness: two calls for the workspace \<open>w3\<close> that read the same
  clock value ask for the same snapshot name and return the same URL.
\<close>

theorem TakeSnapshot_same_tick_counterexample:
  "TakeSnapshot example_Manager
     \<lparr>TakeSnapshotRequest_Id = ''w3'', TakeSnapshotRequest_ReturnImmediately = True\<rparr> =
     (Inr \<lparr>TakeSnapshotResponse_Url = ''snapshot-w3-1700000000000000000''\<rparr>,
      [Call_findWorkspacePod ''w3'', Call_getWorkspaceObjects (example_Pod ''w3''),
       Call_createWorkspaceSnapshotFromPVC ''ws-w3'' ''snapshot-w3-1700000000000000000''
         ''csi-snapshots'' ''w3'' (Pod_Labels (example_Pod ''w3''))])
   \<and> TakeSnapshot example_Manager
     \<lparr>TakeSnapshotRequest_Id = ''w3'', TakeSnapshotRequest_ReturnImmediately = False\<rparr> =
     (Inr \<lparr>TakeSnapshotResponse_Url = ''snapshot-w3-1700000000000000000''\<rparr>,
      [Call_findWorkspacePod ''w3'', Call_getWorkspaceObjects (example_Pod ''w3''),
       Call_createWorkspaceSnapshotFromPVC ''ws-w3'' ''snapshot-w3-1700000000000000000''
         ''csi-snapshots'' ''w3'' (Pod_Labels (example_Pod ''w3'')),
       Call_waitForWorkspaceVolumeSnapshotReady ''snapshot-w3-1700000000000000000''])"
  by (simp add: TakeSnapshot_def Let_def example_defs example_now)

text \<open>
  Claim C7. On the volume-snapshot path with \<^verbatim>\<open>ReturnImmediately\<close> false, whenever the
  readiness wait does not report "ready, no error" the result is an Internal status error,
  and a success response is returned only when the wait ran and reported the snapshot ready
  without an error; the URL is then the snapshot name.
\<close>

theorem TakeSnapshot_pvc_wait:
  assumes "findWorkspacePod m (TakeSnapshotRequest_Id req) = Inr pod"
    and "getWorkspaceObjects m pod = Inr wso"
    and "getWorkspaceStatus m wso = Inr sts"
    and "Phase sts = RUNNING"
    and "Pod_Labels (wso_Pod wso) (pvcWorkspaceFeatureLabel m) = Some v"
    and "\<not> TakeSnapshotRequest_ReturnImmediately req"
    and "name = ''snapshot-'' @ fst (WorkspaceID m wso) @ ''-'' @ fmt_d (sint (time_Now_UnixNano m))"
  shows "(waitForWorkspaceVolumeSnapshotReady m name \<noteq> (True, None) \<longrightarrow>
            (\<exists>f as. fst (TakeSnapshot m req) = Inl (status_Errorf Internal f as)))
       \<and> (\<forall>r. fst (TakeSnapshot m req) = Inr r \<longrightarrow>
            waitForWorkspaceVolumeSnapshotReady m name = (True, None)
            \<and> TakeSnapshotResponse_Url r = name
            \<and> Call_waitForWorkspaceVolumeSnapshotReady name \<in> set (snd (TakeSnapshot m req)))"
  using assms
  by (auto simp add: TakeSnapshot_def Let_def split: option.splits prod.splits if_splits)

text \<open>
  The theorem of claim C7 at the workspace \<open>w3\<close>: once with a wait that ends without the
  snapshot being ready, once with a wait that fails, once with a wait that reports it ready.
\<close>

theorem TakeSnapshot_pvc_wait_witness:
  "fst (TakeSnapshot (example_Manager\<lparr>waitForWorkspaceVolumeSnapshotReady := \<lambda>name. (False, None)\<rparr>)
     \<lparr>TakeSnapshotRequest_Id = ''w3'', TakeSnapshotRequest_ReturnImmediately = False\<rparr>) =
     Inl (status_Errorf Internal ''volume snapshot is not ready'' [])
   \<and> fst (TakeSnapshot
       (example_Manager\<lparr>waitForWorkspaceVolumeSnapshotReady :=
          \<lambda>name. (False, Some (errors_New ''context deadline exceeded''))\<rparr>)
     \<lparr>TakeSnapshotRequest_Id = ''w3'', TakeSnapshotRequest_ReturnImmediately = False\<rparr>) =
     Inl (status_Errorf Internal ''cannot wait for volume snapshot to be ready: %q''
            [E (errors_New ''context deadline exceeded'')])
   \<and> fst (TakeSnapshot example_Manager
     \<lparr>TakeSnapshotRequest_Id = ''w3'', TakeSnapshotRequest_ReturnImmediately = False\<rparr>) =
     Inr \<lparr>TakeSnapshotResponse_Url = ''snapshot-w3-1700000000000000000''\<rparr>"
proof -
  let ?req = "\<lparr>TakeSnapshotRequest_Id = ''w3'', TakeSnapshotRequest_ReturnImmediately = False\<rparr>"
  let ?m1 = "example_Manager\<lparr>waitForWorkspaceVolumeSnapshotReady := \<lambda>name. (False, None)\<rparr>"
  let ?m2 = "example_Manager\<lparr>waitForWorkspaceVolumeSnapshotReady :=
          \<lambda>name. (False, Some (errors_New ''context deadline exceeded''))\<rparr>"
  have 1: "\<exists>f as. fst (TakeSnapshot ?m1 ?req) = Inl (status_Errorf Internal f as)"
    using TakeSnapshot_pvc_wait [of ?m1 ?req "example_Pod ''w3''"
          "\<lparr>wso_Pod = example_Pod ''w3''\<rparr>" "\<lparr>Phase = RUNNING\<rparr>" "''true''"
          "''snapshot-w3-1700000000000000000''"]
    by (simp add: example_defs example_now)
  have 2: "\<exists>f as. fst (TakeSnapshot ?m2 ?req) = Inl (status_Errorf Internal f as)"
    using TakeSnapshot_pvc_wait [of ?m2 ?req "example_Pod ''w3''"
          "\<lparr>wso_Pod = example_Pod ''w3''\<rparr>" "\<lparr>Phase = RUNNING\<rparr>" "''true''"
          "''snapshot-w3-1700000000000000000''"]
    by (simp add: example_defs example_now)
  have 3: "\<forall>r. fst (TakeSnapshot example_Manager ?req) = Inr r \<longrightarrow>
            TakeSnapshotResponse_Url r = ''snapshot-w3-1700000000000000000''"
    using TakeSnapshot_pvc_wait [of example_Manager ?req "example_Pod ''w3''"
          "\<lparr>wso_Pod = example_Pod ''w3''\<rparr>" "\<lparr>Phase = RUNNING\<rparr>" "''true''"
          "''snapshot-w3-1700000000000000000''"]
    by (simp add: example_defs example_now)
  from 1 2 3 show ?thesis
    by (simp add: TakeSnapshot_def Let_def example_defs example_now)
qed

section \<open>The workspace daemon\<close>

text \<open>
  Claim C8. In \<^verbatim>\<open>BackupWorkspace\<close>, and in \<^verbatim>\<open>TakeSnapshot\<close> for a RUNNING workspace without the
  PVC feature label, a failure to connect to the daemon is returned as an Unavailable status
  error; an error of the daemon call is returned as it is; and on success the response carries
  the URL that the daemon returned.
\<close>

theorem daemon_results_pass_through:
  assumes "findWorkspacePod m wid = Inr pod"
  shows "(\<forall>e. connectToWorkspaceDaemon m \<lparr>wso_Pod = pod\<rparr> = Inl e \<longrightarrow>
            fst (BackupWorkspace m \<lparr>BackupWorkspaceRequest_Id = wid\<rparr>) =
              Inl (status_Errorf Unavailable ''cannot connect to workspace daemon: %q'' [E e]))
       \<and> (\<forall>sync. connectToWorkspaceDaemon m \<lparr>wso_Pod = pod\<rparr> = Inr sync \<longrightarrow>
            fst (BackupWorkspace m \<lparr>BackupWorkspaceRequest_Id = wid\<rparr>) =
              (case sync_BackupWorkspace sync \<lparr>wsdaemon_BackupWorkspaceRequest_Id = wid\<rparr> of
                 Inl e \<Rightarrow> Inl e
               | Inr r \<Rightarrow>
                   Inr \<lparr>BackupWorkspaceResponse_Url = wsdaemon_BackupWorkspaceResponse_Url r\<rparr>))
       \<and> (\<forall>wso sts.
            getWorkspaceObjects m pod = Inr wso \<and> getWorkspaceStatus m wso = Inr sts
            \<and> Phase sts = RUNNING \<and> Pod_Labels (wso_Pod wso) (pvcWorkspaceFeatureLabel m) = None \<longrightarrow>
            (\<forall>e. connectToWorkspaceDaemon m \<lparr>wso_Pod = pod\<rparr> = Inl e \<longrightarrow>
               fst (TakeSnapshot m
                      \<lparr>TakeSnapshotRequest_Id = wid, TakeSnapshotRequest_ReturnImmediately = ri\<rparr>) =
                 Inl (status_Errorf Unavailable ''cannot connect to workspace daemon: %q'' [E e]))
            \<and> (\<forall>sync. connectToWorkspaceDaemon m \<lparr>wso_Pod = pod\<rparr> = Inr sync \<longrightarrow>
               fst (TakeSnapshot m
                      \<lparr>TakeSnapshotRequest_Id = wid, TakeSnapshotRequest_ReturnImmediately = ri\<rparr>) =
                 (case sync_TakeSnapshot sync
                         \<lparr>wsdaemon_TakeSnapshotRequest_Id = wid,
                          wsdaemon_TakeSnapshotRequest_ReturnImmediately = ri\<rparr> of
                    Inl e \<Rightarrow> Inl e
                  | Inr r \<Rightarrow>
                      Inr \<lparr>TakeSnapshotResponse_Url = wsdaemon_TakeSnapshotResponse_Url r\<rparr>)))"
  using assms
  by (auto simp add: TakeSnapshot_def BackupWorkspace_def Let_def split: sum.splits)

text \<open>
  The theorem of claim C8 at the workspace \<open>w1\<close>: with the daemon of the example cluster, with
  a daemon whose calls fail, and with a daemon that cannot be reached.
\<close>

theorem daemon_results_pass_through_witness:
  "fst (TakeSnapshot example_Manager
     \<lparr>TakeSnapshotRequest_Id = ''w1'', TakeSnapshotRequest_ReturnImmediately = True\<rparr>) =
     Inr \<lparr>TakeSnapshotResponse_Url = ''backup://w1/1''\<rparr>
   \<and> fst (BackupWorkspace example_Manager \<lparr>BackupWorkspaceRequest_Id = ''w1''\<rparr>) =
     Inr \<lparr>BackupWorkspaceResponse_Url = ''backup://w1/2''\<rparr>
   \<and> fst (TakeSnapshot (example_Manager\<lparr>connectToWorkspaceDaemon := \<lambda>wso. Inr failing_sync\<rparr>)
     \<lparr>TakeSnapshotRequest_Id = ''w1'', TakeSnapshotRequest_ReturnImmediately = True\<rparr>) =
     Inl (status_Errorf ResourceExhausted ''disk full'' [])
   \<and> fst (BackupWorkspace (example_Manager\<lparr>connectToWorkspaceDaemon := \<lambda>wso. Inr failing_sync\<rparr>)
     \<lparr>BackupWorkspaceRequest_Id = ''w1''\<rparr>) =
     Inl (status_Errorf ResourceExhausted ''disk full'' [])
   \<and> fst (BackupWorkspace
       (example_Manager\<lparr>connectToWorkspaceDaemon := \<lambda>wso. Inl (errors_New ''connection refused'')\<rparr>)
     \<lparr>BackupWorkspaceRequest_Id = ''w1''\<rparr>) =
     Inl (status_Errorf Unavailable ''cannot connect to workspace daemon: %q''
            [E (errors_New ''connection refused'')])
   \<and> fst (TakeSnapshot
       (example_Manager\<lparr>connectToWorkspaceDaemon := \<lambda>wso. Inl (errors_New ''connection refused'')\<rparr>)
     \<lparr>TakeSnapshotRequest_Id = ''w1'', TakeSnapshotRequest_ReturnImmediately = True\<rparr>) =
     Inl (status_Errorf Unavailable ''cannot connect to workspace daemon: %q''
            [E (errors_New ''connection refused'')])"
  using daemon_results_pass_through [of example_Manager "''w1''" "example_Pod ''w1''" True]
    daemon_results_pass_through
      [of "example_Manager\<lparr>connectToWorkspaceDaemon := \<lambda>wso. Inr failing_sync\<rparr>"
        "''w1''" "example_Pod ''w1''" True]
    daemon_results_pass_through
      [of "example_Manager\<lparr>connectToWorkspaceDaemon := \<lambda>wso. Inl (errors_New ''connection refused'')\<rparr>"
        "''w1''" "example_Pod ''w1''" True]
  by (simp add: example_defs failing_sync_def)

section \<open>Readiness of a volume snapshot\<close>

text \<open>
  Claim C9. \<^verbatim>\<open>GetVolumeSnapshot\<close> makes one call, the readiness check, and nothing about the
  workspace enters its result: no pod lookup, no phase. When the check reports no error the
  response carries the ID and the readiness that the check reported; when the check's error has
  the code NotFound the result is a NotFound status error; any other error of the check gives
  an Internal status error.
\<close>

theorem GetVolumeSnapshot_readiness:
  "snd (GetVolumeSnapshot m \<lparr>GetVolumeSnapshotRequest_Id = sid\<rparr>) =
     [Call_checkWorkspaceVolumeSnapshotIsReady sid]
   \<and> (\<forall>rdy. checkWorkspaceVolumeSnapshotIsReady m sid = (rdy, None) \<longrightarrow>
        fst (GetVolumeSnapshot m \<lparr>GetVolumeSnapshotRequest_Id = sid\<rparr>) =
          Inr \<lparr>GetVolumeSnapshotResponse_Id = sid, GetVolumeSnapshotResponse_Ready = rdy\<rparr>)
   \<and> (\<forall>rdy e. checkWorkspaceVolumeSnapshotIsReady m sid = (rdy, Some e) \<and> status_Code e = NotFound \<longrightarrow>
        fst (GetVolumeSnapshot m \<lparr>GetVolumeSnapshotRequest_Id = sid\<rparr>) =
          Inl (status_Errorf NotFound ''volume snapshot %s does not exist'' [S sid]))
   \<and> (\<forall>rdy e. checkWorkspaceVolumeSnapshotIsReady m sid = (rdy, Some e) \<and> status_Code e \<noteq> NotFound \<longrightarrow>
        fst (GetVolumeSnapshot m \<lparr>GetVolumeSnapshotRequest_Id = sid\<rparr>) =
          Inl (status_Errorf Internal ''cannot check if volume snapshot is ready: %q'' [E e]))
   \<and> (\<forall>m'. checkWorkspaceVolumeSnapshotIsReady m' sid = checkWorkspaceVolumeSnapshotIsReady m sid \<longrightarrow>
        GetVolumeSnapshot m' \<lparr>GetVolumeSnapshotRequest_Id = sid\<rparr> =
        GetVolumeSnapshot m \<lparr>GetVolumeSnapshotRequest_Id = sid\<rparr>)"
proof (intro conjI allI impI)
  fix m' :: Manager
  assume "checkWorkspaceVolumeSnapshotIsReady m' sid = checkWorkspaceVolumeSnapshotIsReady m sid"
  then show "GetVolumeSnapshot m' \<lparr>GetVolumeSnapshotRequest_Id = sid\<rparr> =
        GetVolumeSnapshot m \<lparr>GetVolumeSnapshotRequest_Id = sid\<rparr>"
    by (simp add: GetVolumeSnapshot_def)
qed (simp_all add: GetVolumeSnapshot_def Let_def split: prod.splits option.splits)

text \<open>
  The theorem of claim C9 on the example cluster: a snapshot that is not ready yet, the same
  snapshot once the cluster reports it ready (and no workspace has a pod any more), a snapshot
  whose check fails, and an unknown snapshot.
\<close>

theorem GetVolumeSnapshot_readiness_witness:
  "fst (GetVolumeSnapshot example_Manager \<lparr>GetVolumeSnapshotRequest_Id = ''snapshot-w3-2''\<rparr>) =
     Inr \<lparr>GetVolumeSnapshotResponse_Id = ''snapshot-w3-2'', GetVolumeSnapshotResponse_Ready = False\<rparr>
   \<and> fst (GetVolumeSnapshot
       (example_Manager\<lparr>findWorkspacePod := \<lambda>wid. Inl (k8s_StatusError 404 ''pod not found''),
                         checkWorkspaceVolumeSnapshotIsReady := \<lambda>sid. (True, None)\<rparr>)
       \<lparr>GetVolumeSnapshotRequest_Id = ''snapshot-w3-2''\<rparr>) =
     Inr \<lparr>GetVolumeSnapshotResponse_Id = ''snapshot-w3-2'', GetVolumeSnapshotResponse_Ready = True\<rparr>
   \<and> fst (GetVolumeSnapshot example_Manager \<lparr>GetVolumeSnapshotRequest_Id = ''snapshot-w3-3''\<rparr>) =
     Inl (status_Errorf Internal ''cannot check if volume snapshot is ready: %q''
            [E (errors_New ''connection refused'')])
   \<and> fst (GetVolumeSnapshot example_Manager \<lparr>GetVolumeSnapshotRequest_Id = ''snapshot-w9-9''\<rparr>) =
     Inl (status_Errorf NotFound ''volume snapshot %s does not exist'' [S ''snapshot-w9-9''])"
proof -
  let ?later = "example_Manager\<lparr>findWorkspacePod := \<lambda>wid. Inl (k8s_StatusError 404 ''pod not found''),
                         checkWorkspaceVolumeSnapshotIsReady := \<lambda>sid. (True, None)\<rparr>"
  note ready = GetVolumeSnapshot_readiness [THEN conjunct2, THEN conjunct1, rule_format]
  note unknown = GetVolumeSnapshot_readiness
    [THEN conjunct2, THEN conjunct2, THEN conjunct1, rule_format]
  note failed = GetVolumeSnapshot_readiness
    [THEN conjunct2, THEN conjunct2, THEN conjunct2, THEN conjunct1, rule_format]
  have 1: "fst (GetVolumeSnapshot example_Manager \<lparr>GetVolumeSnapshotRequest_Id = ''snapshot-w3-2''\<rparr>) =
     Inr \<lparr>GetVolumeSnapshotResponse_Id = ''snapshot-w3-2'', GetVolumeSnapshotResponse_Ready = False\<rparr>"
    by (rule ready) (simp add: example_Manager_def)
  have 2: "fst (GetVolumeSnapshot ?later \<lparr>GetVolumeSnapshotRequest_Id = ''snapshot-w3-2''\<rparr>) =
     Inr \<lparr>GetVolumeSnapshotResponse_Id = ''snapshot-w3-2'', GetVolumeSnapshotResponse_Ready = True\<rparr>"
    by (rule ready) (simp add: example_Manager_def)
  have 3: "fst (GetVolumeSnapshot example_Manager \<lparr>GetVolumeSnapshotRequest_Id = ''snapshot-w3-3''\<rparr>) =
     Inl (status_Errorf Internal ''cannot check if volume snapshot is ready: %q''
            [E (errors_New ''connection refused'')])"
    by (rule failed [of _ _ False]) (simp add: example_Manager_def)
  have 4: "fst (GetVolumeSnapshot example_Manager \<lparr>GetVolumeSnapshotRequest_Id = ''snapshot-w9-9''\<rparr>) =
     Inl (status_Errorf NotFound ''volume snapshot %s does not exist'' [S ''snapshot-w9-9''])"
    by (rule unknown [of _ _ False "status_Errorf NotFound ''not found'' []"])
       (simp add: example_Manager_def)
  from 1 2 3 4 show ?thesis by blast
qed

end
